theory Spec2Isabelle
  imports Complex_Main "HOL-Library.AList" "HOL-Library.Sublist"
begin

section \<open>Data model of the civic issue server\<close>

text \<open>
  The server (the Hono application that follows the two React components in
  \<^verbatim>\<open>RaiseTicketFlow.tsx\<close>) keeps every entity as a JSON value in a key-value store.
  JavaScript numbers are modelled by \<^typ>\<open>real\<close> (coordinates, distances) and by
  \<^typ>\<open>nat\<close> (counters and millisecond timestamps, which stay far below \<open>2^53\<close>);
  \<open>undefined\<close> and \<open>null\<close> are \<open>None\<close>. An ISO timestamp string is
  represented by the instant it denotes, in milliseconds.
\<close>

record location =
  lat :: "real option"
  lng :: "real option"
  address :: "string option"
  ward :: "string option"
  digiPin :: "string option"

record resolution =
  resolution_notes :: string
  proofImageUrl :: "string option"
  resolvedBy :: string
  resolvedAt :: nat

record ticket =
  ticket_id :: string
  userId :: string
  category :: string
  description :: string
  ticket_location :: "location option"
  imageUrl :: "string option"
  status :: string
  createdAt :: nat
  updatedAt :: nat
  assignedTo :: "string option"
  ticket_resolution :: "resolution option"
  upvotes :: nat

record upvote =
  upvote_userId :: string
  upvote_ticketId :: string
  upvote_createdAt :: nat

record profile =
  profile_id :: string
  role :: string

record notification =
  notification_id :: string
  notification_type :: string
  title :: string
  message :: string
  notification_ticketId :: "string option"
  read :: bool
  notification_createdAt :: nat

text \<open>
  A handler answers \<^verbatim>\<open>c.json({ error }, status)\<close> or \<^verbatim>\<open>c.json(payload)\<close>
  (HTTP 200).
\<close>

datatype 'a response = Json_error string nat | Json_ok 'a

subsection \<open>JavaScript helpers\<close>

text \<open>Truthiness of an optional string: present and not empty.\<close>

fun truthy_string :: "string option \<Rightarrow> bool" where
  "truthy_string None = False"
| "truthy_string (Some s) = (s \<noteq> [])"

text \<open>\<^verbatim>\<open>x || d\<close> on an optional string.\<close>

fun or_string :: "string option \<Rightarrow> string \<Rightarrow> string" where
  "or_string None d = d"
| "or_string (Some s) d = (if s = [] then d else s)"

text \<open>\<^verbatim>\<open>x || null\<close> on an optional string.\<close>

fun or_null :: "string option \<Rightarrow> string option" where
  "or_null None = None"
| "or_null (Some s) = (if s = [] then None else Some s)"

text \<open>
  \<^verbatim>\<open>s.replace('-', ' ')\<close>: a string pattern replaces the first occurrence only.
\<close>

fun replace_dash :: "string \<Rightarrow> string" where
  "replace_dash [] = []"
| "replace_dash (c # cs) = (if c = CHR ''-'' then CHR '' '' # cs else c # replace_dash cs)"

text \<open>Decimal rendering of a number inside a template string.\<close>

definition digit_char :: "nat \<Rightarrow> char" where
  "digit_char d = ''0123456789'' ! d"

function string_of_nat :: "nat \<Rightarrow> string" where
  "string_of_nat n =
     (if n < 10 then [digit_char n] else string_of_nat (n div 10) @ [digit_char (n mod 10)])"
  by pat_completeness auto
termination
  by (relation "measure (\<lambda>n. n)") auto

declare string_of_nat.simps [simp del]

subsection \<open>The key-value store\<close>

text \<open>
  Modelled from the spec: the module \<^verbatim>\<open>kv_store.tsx\<close> (\<^verbatim>\<open>get\<close>, \<^verbatim>\<open>set\<close>,
  \<^verbatim>\<open>getByPrefix\<close>) is not among the sources. The spec describes it as a durable mapping
  from string key to JSON value supporting get, set, delete and prefix scan. A table is
  an association list read through \<open>map_of\<close>; \<open>set\<close> overwrites a key in place or
  appends a new one; the prefix scan yields the value of every key that starts with the
  prefix, once per key. The order of the scan is left open by the spec and no theorem
  below depends on it.
\<close>

definition kv_get :: "string \<Rightarrow> (string \<times> 'v) list \<Rightarrow> 'v option" where
  "kv_get k kv = map_of kv k"

definition kv_set :: "string \<Rightarrow> 'v \<Rightarrow> (string \<times> 'v) list \<Rightarrow> (string \<times> 'v) list" where
  "kv_set k v kv = AList.update k v kv"

definition kv_getByPrefix :: "string \<Rightarrow> (string \<times> 'v) list \<Rightarrow> 'v list" where
  "kv_getByPrefix p kv = map snd (filter (\<lambda>e. prefix p (fst e)) (AList.clearjunk kv))"

text \<open>
  The server writes five shapes of value, each under its own key prefix
  (\<^verbatim>\<open>ticket_\<close>, \<^verbatim>\<open>upvote_\<close>, \<^verbatim>\<open>user_tickets_\<close>, \<^verbatim>\<open>user_profile_\<close>,
  \<^verbatim>\<open>notifications_\<close>). No prefix is a prefix of another, so the store is one table
  per shape; every table is still addressed by the full key string the source builds.
\<close>

record store =
  tickets :: "(string \<times> ticket) list"
  upvote_records :: "(string \<times> upvote) list"
  user_tickets :: "(string \<times> string list) list"
  user_profiles :: "(string \<times> profile) list"
  notifications :: "(string \<times> notification list) list"

section \<open>Notification service\<close>

text \<open>
  \<^verbatim>\<open>createNotification\<close>. The clock reading \<open>now\<close> and the random suffix \<open>rnd\<close>
  of the id are inputs. With a store that cannot fail the \<^verbatim>\<open>catch\<close> branch is never
  taken.
\<close>

definition new_notification ::
  "string \<Rightarrow> string \<Rightarrow> string \<Rightarrow> string option \<Rightarrow> nat \<Rightarrow> string \<Rightarrow> notification" where
  "new_notification ty ti msg tk now rnd =
     \<lparr> notification_id = ''notif_'' @ string_of_nat now @ ''_'' @ rnd,
       notification_type = ty, title = ti, message = msg,
       notification_ticketId = tk, read = False, notification_createdAt = now \<rparr>"

text \<open>\<^verbatim>\<open>await kv.get(`notifications_${userId}`) || []\<close>\<close>

definition feed :: "string \<Rightarrow> store \<Rightarrow> notification list" where
  "feed uid s =
     (case kv_get (''notifications_'' @ uid) (notifications s) of
        None \<Rightarrow> [] | Some ns \<Rightarrow> ns)"

definition createNotification ::
  "string \<Rightarrow> string \<Rightarrow> string \<Rightarrow> string \<Rightarrow> string option \<Rightarrow> nat \<Rightarrow> string \<Rightarrow> store \<Rightarrow> store" where
  "createNotification uid ty ti msg tk now rnd s =
     (let ns = new_notification ty ti msg tk now rnd # feed uid s;
          ns' = (if length ns > 50 then take 50 ns else ns)
      in s\<lparr>notifications := kv_set (''notifications_'' @ uid) ns' (notifications s)\<rparr>)"

text \<open>
  A sequence of \<open>Notify\<close> calls for one recipient, oldest call first; each call is
  given as (type, title, message, ticket reference, clock, random suffix).
\<close>

type_synonym notify_call = "string \<times> string \<times> string \<times> string option \<times> nat \<times> string"

fun call_notification :: "notify_call \<Rightarrow> notification" where
  "call_notification (ty, ti, msg, tk, now, rnd) = new_notification ty ti msg tk now rnd"

fun notify_calls :: "string \<Rightarrow> notify_call list \<Rightarrow> store \<Rightarrow> store" where
  "notify_calls uid [] s = s"
| "notify_calls uid ((ty, ti, msg, tk, now, rnd) # cs) s =
     notify_calls uid cs (createNotification uid ty ti msg tk now rnd s)"

section \<open>Ticket service\<close>

text \<open>
  Each handler takes the outcome of \<^verbatim>\<open>supabase.auth.getUser\<close> (the id of the
  authenticated user, or \<open>None\<close>), the parsed request, one clock reading \<open>now\<close> for
  the request and the random suffixes \<open>rnd k\<close> of the notifications it creates, and
  returns the response with the store it leaves behind.
\<close>

definition http_status :: "'a response \<Rightarrow> nat" where
  "http_status r = (case r of Json_error m c \<Rightarrow> c | Json_ok x \<Rightarrow> 200)"

subsection \<open>Submit a ticket\<close>

record ticket_body =
  body_category :: "string option"
  body_description :: "string option"
  body_location :: "location option"
  body_imageUrl :: "string option"

text \<open>
  The entry a submission is expected to leave on the feed of an authority, written out
  field by field; \<open>r\<close> is the random suffix of the id.
\<close>

definition new_ticket_notification :: "string \<Rightarrow> location \<Rightarrow> string \<Rightarrow> nat \<Rightarrow> string \<Rightarrow> notification" where
  "new_ticket_notification cat loc ticketId now r =
     \<lparr> notification_id = ''notif_'' @ string_of_nat now @ ''_'' @ r,
       notification_type = ''new_ticket'',
       title = ''New Issue Reported'',
       message = ''A new '' @ replace_dash cat @ '' issue has been reported in '' @
                   or_string (ward loc) ''your area'',
       notification_ticketId = Some ticketId,
       read = False,
       notification_createdAt = now \<rparr>"

text \<open>The \<^verbatim>\<open>for (const authority of authorities)\<close> loop; \<open>k\<close> counts the calls.\<close>

fun notify_authorities ::
  "profile list \<Rightarrow> string \<Rightarrow> location \<Rightarrow> string \<Rightarrow> nat \<Rightarrow> (nat \<Rightarrow> string) \<Rightarrow> nat \<Rightarrow> store \<Rightarrow> store" where
  "notify_authorities [] cat loc ticketId now rnd k s = s"
| "notify_authorities (authority # rest) cat loc ticketId now rnd k s =
     notify_authorities rest cat loc ticketId now rnd (Suc k)
       (createNotification (profile_id authority) ''new_ticket'' ''New Issue Reported''
          (''A new '' @ replace_dash cat @ '' issue has been reported in '' @
             or_string (ward loc) ''your area'')
          (Some ticketId) now (rnd k) s)"

definition authorities :: "store \<Rightarrow> profile list" where
  "authorities s =
     filter (\<lambda>profile. role profile = ''authority'')
       (kv_getByPrefix ''user_profile_'' (user_profiles s))"

definition new_ticket :: "string \<Rightarrow> string \<Rightarrow> ticket_body \<Rightarrow> location \<Rightarrow> nat \<Rightarrow> ticket" where
  "new_ticket uid cat body loc now =
     \<lparr> ticket_id = ''TKT'' @ string_of_nat now,
       userId = uid,
       category = cat,
       description = or_string (body_description body) [],
       ticket_location = Some loc,
       imageUrl = or_null (body_imageUrl body),
       status = ''submitted'',
       createdAt = now,
       updatedAt = now,
       assignedTo = None,
       ticket_resolution = None,
       upvotes = 0 \<rparr>"

definition submit_ok ::
  "string \<Rightarrow> string \<Rightarrow> ticket_body \<Rightarrow> location \<Rightarrow> nat \<Rightarrow> (nat \<Rightarrow> string) \<Rightarrow> store \<Rightarrow>
     (ticket \<times> string) response \<times> store" where
  "submit_ok uid cat body loc now rnd s =
     (let ticketId = ''TKT'' @ string_of_nat now;
          ticket = new_ticket uid cat body loc now;
          s1 = s\<lparr>tickets := kv_set (''ticket_'' @ ticketId) ticket (tickets s)\<rparr>;
          userTickets = (case kv_get (''user_tickets_'' @ uid) (user_tickets s1) of
                           None \<Rightarrow> [] | Some ids \<Rightarrow> ids);
          s2 = s1\<lparr>user_tickets :=
                   kv_set (''user_tickets_'' @ uid) (userTickets @ [ticketId]) (user_tickets s1)\<rparr>;
          s3 = notify_authorities (authorities s2) cat loc ticketId now rnd 0 s2
      in (Json_ok (ticket, ''Ticket submitted successfully''), s3))"

definition submitTicket ::
  "string option \<Rightarrow> ticket_body \<Rightarrow> nat \<Rightarrow> (nat \<Rightarrow> string) \<Rightarrow> store \<Rightarrow>
     (ticket \<times> string) response \<times> store" where
  "submitTicket user body now rnd s =
     (case user of
        None \<Rightarrow> (Json_error ''Unauthorized'' 401, s)
      | Some uid \<Rightarrow>
          (case body_category body of
             None \<Rightarrow> (Json_error ''Category and location are required'' 400, s)
           | Some cat \<Rightarrow>
               if cat = [] then (Json_error ''Category and location are required'' 400, s)
               else
                 (case body_location body of
                    None \<Rightarrow> (Json_error ''Category and location are required'' 400, s)
                  | Some loc \<Rightarrow> submit_ok uid cat body loc now rnd s)))"

subsection \<open>Update the status of a ticket\<close>

definition with_resolution :: "string option \<Rightarrow> string option \<Rightarrow> string \<Rightarrow> nat \<Rightarrow> ticket \<Rightarrow> ticket" where
  "with_resolution res proofUrl uid now t =
     (case res of
        None \<Rightarrow> t
      | Some r \<Rightarrow>
          if r = [] then t
          else t\<lparr>ticket_resolution :=
                   Some \<lparr> resolution_notes = r, proofImageUrl = or_null proofUrl,
                          resolvedBy = uid, resolvedAt = now \<rparr>\<rparr>)"

text \<open>
  The two entries a status update is expected to leave on the reporter's feed, written
  out field by field; \<open>r\<close> is the random suffix of the id.
\<close>

definition status_update_notification :: "string \<Rightarrow> string \<Rightarrow> nat \<Rightarrow> string \<Rightarrow> notification" where
  "status_update_notification ticketId st now r =
     \<lparr> notification_id = ''notif_'' @ string_of_nat now @ ''_'' @ r,
       notification_type = ''ticket_update'',
       title = ''Ticket Status Updated'',
       message = ''Your ticket #'' @ ticketId @ '' has been '' @
                   (if st = ''completed'' then ''resolved'' else replace_dash st),
       notification_ticketId = Some ticketId,
       read = False,
       notification_createdAt = now \<rparr>"

definition resolution_notification :: "string \<Rightarrow> nat \<Rightarrow> string \<Rightarrow> notification" where
  "resolution_notification ticketId now r =
     \<lparr> notification_id = ''notif_'' @ string_of_nat now @ ''_'' @ r,
       notification_type = ''resolution'',
       title = ''Issue Resolved'',
       message = ''Your ticket #'' @ ticketId @ '' has been completed with proof of resolution'',
       notification_ticketId = Some ticketId,
       read = False,
       notification_createdAt = now \<rparr>"

definition notify_owner ::
  "ticket \<Rightarrow> string \<Rightarrow> string \<Rightarrow> string option \<Rightarrow> nat \<Rightarrow> (nat \<Rightarrow> string) \<Rightarrow> store \<Rightarrow> store" where
  "notify_owner t ticketId st proofUrl now rnd s =
     (case kv_get (''user_profile_'' @ userId t) (user_profiles s) of
        None \<Rightarrow> s
      | Some ticketOwnerProfile \<Rightarrow>
          (let statusMessage = (if st = ''completed'' then ''resolved'' else replace_dash st);
               s1 = createNotification (userId t) ''ticket_update'' ''Ticket Status Updated''
                      (''Your ticket #'' @ ticketId @ '' has been '' @ statusMessage)
                      (Some ticketId) now (rnd 0) s
           in if st = ''completed'' \<and> truthy_string proofUrl
              then createNotification (userId t) ''resolution'' ''Issue Resolved''
                     (''Your ticket #'' @ ticketId @
                        '' has been completed with proof of resolution'')
                     (Some ticketId) now (rnd 1) s1
              else s1))"

definition updateStatus ::
  "string option \<Rightarrow> string \<Rightarrow> string \<Rightarrow> string option \<Rightarrow> string option \<Rightarrow> nat \<Rightarrow>
     (nat \<Rightarrow> string) \<Rightarrow> store \<Rightarrow> (ticket \<times> string) response \<times> store" where
  "updateStatus user ticketId st res proofUrl now rnd s =
     (case user of
        None \<Rightarrow> (Json_error ''Unauthorized'' 401, s)
      | Some uid \<Rightarrow>
          (case kv_get (''user_profile_'' @ uid) (user_profiles s) of
             None \<Rightarrow> (Json_error ''Insufficient permissions'' 403, s)
           | Some userProfile \<Rightarrow>
               if role userProfile \<noteq> ''authority''
               then (Json_error ''Insufficient permissions'' 403, s)
               else
                 (case kv_get (''ticket_'' @ ticketId) (tickets s) of
                    None \<Rightarrow> (Json_error ''Ticket not found'' 404, s)
                  | Some ticket \<Rightarrow>
                      (let t1 = ticket\<lparr>status := st, updatedAt := now, assignedTo := Some uid\<rparr>;
                           t2 = with_resolution res proofUrl uid now t1;
                           s1 = s\<lparr>tickets := kv_set (''ticket_'' @ ticketId) t2 (tickets s)\<rparr>;
                           s2 = notify_owner t2 ticketId st proofUrl now rnd s1
                       in (Json_ok (t2, ''Ticket updated successfully''), s2)))))"

subsection \<open>Upvote a ticket\<close>

definition upvoteTicket ::
  "string option \<Rightarrow> string \<Rightarrow> nat \<Rightarrow> (nat \<Rightarrow> string) \<Rightarrow> store \<Rightarrow>
     (ticket \<times> string) response \<times> store" where
  "upvoteTicket user ticketId now rnd s =
     (case user of
        None \<Rightarrow> (Json_error ''Unauthorized'' 401, s)
      | Some uid \<Rightarrow>
          (case kv_get (''ticket_'' @ ticketId) (tickets s) of
             None \<Rightarrow> (Json_error ''Ticket not found'' 404, s)
           | Some ticket \<Rightarrow>
               (let upvoteKey = ''upvote_'' @ ticketId @ ''_'' @ uid
                in case kv_get upvoteKey (upvote_records s) of
                     Some existingUpvote \<Rightarrow> (Json_error ''Already upvoted'' 400, s)
                   | None \<Rightarrow>
                       (let s1 = s\<lparr>upvote_records :=
                                     kv_set upvoteKey
                                       \<lparr> upvote_userId = uid, upvote_ticketId = ticketId,
                                         upvote_createdAt = now \<rparr>
                                       (upvote_records s)\<rparr>;
                            t' = ticket\<lparr>upvotes := upvotes ticket + 1\<rparr>;
                            s2 = s1\<lparr>tickets := kv_set (''ticket_'' @ ticketId) t' (tickets s1)\<rparr>;
                            s3 = (if userId t' \<noteq> uid
                                  then createNotification (userId t') ''ticket_upvote''
                                         ''Your Issue Got Support''
                                         (''Someone upvoted your ticket #'' @ ticketId @
                                            ''. Total votes: '' @ string_of_nat (upvotes t'))
                                         (Some ticketId) now (rnd 0) s2
                                  else s2)
                        in (Json_ok (t', ''Upvoted successfully''), s3)))))"

subsection \<open>Nearby tickets\<close>

text \<open>\<^verbatim>\<open>Math.atan2(y, x)\<close> on real numbers.\<close>

definition atan2 :: "real \<Rightarrow> real \<Rightarrow> real" where
  "atan2 y x =
     (if 0 < x then arctan (y / x)
      else if x < 0 then (if 0 \<le> y then arctan (y / x) + pi else arctan (y / x) - pi)
      else if 0 < y then pi / 2
      else if y < 0 then - (pi / 2)
      else 0)"

definition calculateDistance :: "real \<Rightarrow> real \<Rightarrow> real \<Rightarrow> real \<Rightarrow> real" where
  "calculateDistance lat1 lng1 lat2 lng2 =
     (let R = 6371;
          dLat = (lat2 - lat1) * pi / 180;
          dLng = (lng2 - lng1) * pi / 180;
          a = sin (dLat / 2) * sin (dLat / 2) +
              cos (lat1 * pi / 180) * cos (lat2 * pi / 180) *
              sin (dLng / 2) * sin (dLng / 2);
          c = 2 * atan2 (sqrt a) (sqrt (1 - a))
      in R * c)"

text \<open>
  \<^verbatim>\<open>ticket.location?.lat && ticket.location?.lng\<close>: the coordinates the loop body
  reads, when the test lets the ticket through. A number is truthy when it is not 0.
\<close>

definition coordinates :: "ticket \<Rightarrow> (real \<times> real) option" where
  "coordinates t =
     (case ticket_location t of
        None \<Rightarrow> None
      | Some loc \<Rightarrow>
          (case lat loc of
             None \<Rightarrow> None
           | Some la \<Rightarrow>
               (case lng loc of
                  None \<Rightarrow> None
                | Some lo \<Rightarrow> if la \<noteq> 0 \<and> lo \<noteq> 0 then Some (la, lo) else None)))"

text \<open>The \<^verbatim>\<open>for (const ticket of allTickets)\<close> loop, pushing to \<^verbatim>\<open>nearbyTickets\<close>.\<close>

fun nearby_scan :: "real \<Rightarrow> real \<Rightarrow> real \<Rightarrow> ticket list \<Rightarrow> (ticket \<times> real) list" where
  "nearby_scan qlat qlng radius [] = []"
| "nearby_scan qlat qlng radius (t # ts) =
     (case coordinates t of
        None \<Rightarrow> nearby_scan qlat qlng radius ts
      | Some (la, lo) \<Rightarrow>
          (let distance = calculateDistance qlat qlng la lo
           in if distance \<le> radius
              then (t, distance) # nearby_scan qlat qlng radius ts
              else nearby_scan qlat qlng radius ts))"

text \<open>
  The handler, after \<^verbatim>\<open>parseFloat\<close> of the query parameters. The comparator
  \<^verbatim>\<open>a.distance - b.distance\<close> with the stable \<^verbatim>\<open>Array.prototype.sort\<close> is a stable
  sort on the distance.
\<close>

definition nearbyTickets :: "real \<Rightarrow> real \<Rightarrow> real \<Rightarrow> store \<Rightarrow> (ticket \<times> real) list" where
  "nearbyTickets qlat qlng radius s =
     sort_key snd (nearby_scan qlat qlng radius (kv_getByPrefix ''ticket_'' (tickets s)))"

section \<open>Aggregation service\<close>

record ward_data =
  ward_label :: string
  issueCount :: nat
  criticalCount :: nat
  totalUpvotes :: nat
  categories :: "(string \<times> nat) list"

record heatmap_entry = ward_data +
  averageUpvotes :: int
  density :: string

text \<open>\<^verbatim>\<open>ticket.location?.ward\<close>\<close>

definition ticket_ward :: "ticket \<Rightarrow> string option" where
  "ticket_ward t = (case ticket_location t of None \<Rightarrow> None | Some loc \<Rightarrow> ward loc)"

text \<open>
  The body of \<^verbatim>\<open>allTickets.forEach\<close>; the object \<^verbatim>\<open>wardData\<close> is an association
  list in insertion order.
\<close>

definition add_ticket :: "ticket \<Rightarrow> (string \<times> ward_data) list \<Rightarrow> (string \<times> ward_data) list" where
  "add_ticket t wardData =
     (let w = or_string (ticket_ward t) ''Unknown'';
          d0 = (case map_of wardData w of
                  None \<Rightarrow> \<lparr> ward_label = w, issueCount = 0, criticalCount = 0,
                             totalUpvotes = 0, categories = [] \<rparr>
                | Some d \<Rightarrow> d);
          d1 = d0\<lparr>issueCount := issueCount d0 + 1\<rparr>;
          d2 = (if upvotes t \<ge> 15 then d1\<lparr>criticalCount := criticalCount d1 + 1\<rparr> else d1);
          d3 = d2\<lparr>totalUpvotes := totalUpvotes d2 + upvotes t\<rparr>;
          d4 = d3\<lparr>categories :=
                    AList.update (category t)
                      ((case map_of (categories d3) (category t) of None \<Rightarrow> 0 | Some n \<Rightarrow> n) + 1)
                      (categories d3)\<rparr>
      in AList.update w d4 wardData)"

text \<open>\<^verbatim>\<open>Math.round\<close>: the nearest integer, a half rounding up.\<close>

definition math_round :: "real \<Rightarrow> int" where
  "math_round x = \<lfloor>x + 1 / 2\<rfloor>"

definition heatmap_of_ward :: "ward_data \<Rightarrow> heatmap_entry" where
  "heatmap_of_ward wd =
     ward_data.extend wd
       (heatmap_entry.fields
          (if issueCount wd > 0
           then math_round (real (totalUpvotes wd) / real (issueCount wd)) else 0)
          (if issueCount wd > 40 then ''critical''
           else if issueCount wd > 25 then ''high''
           else if issueCount wd > 15 then ''medium'' else ''low''))"

text \<open>
  The calendar arithmetic of the built-in \<^verbatim>\<open>Date\<close> is a parameter: \<open>daysBack now d\<close>
  is the instant \<^verbatim>\<open>setDate(now.getDate() - d)\<close> yields, \<open>monthsBack now m\<close> the one
  \<^verbatim>\<open>setMonth(now.getMonth() - m)\<close> yields.
\<close>

definition dateThreshold ::
  "(nat \<Rightarrow> nat \<Rightarrow> nat) \<Rightarrow> (nat \<Rightarrow> nat \<Rightarrow> nat) \<Rightarrow> string \<Rightarrow> nat \<Rightarrow> nat" where
  "dateThreshold daysBack monthsBack timeFilter now =
     (if timeFilter = ''day'' then daysBack now 1
      else if timeFilter = ''week'' then daysBack now 7
      else if timeFilter = ''month'' then monthsBack now 1
      else if timeFilter = ''quarter'' then monthsBack now 3
      else now)"

definition heatmap ::
  "(nat \<Rightarrow> nat \<Rightarrow> nat) \<Rightarrow> (nat \<Rightarrow> nat \<Rightarrow> nat) \<Rightarrow> string option \<Rightarrow> string option \<Rightarrow> nat \<Rightarrow>
     store \<Rightarrow> heatmap_entry list" where
  "heatmap daysBack monthsBack timeFilterQ wardFilterQ now s =
     (let timeFilter = or_string timeFilterQ ''week'';
          wardFilter = or_string wardFilterQ ''all'';
          all0 = kv_getByPrefix ''ticket_'' (tickets s);
          threshold = dateThreshold daysBack monthsBack timeFilter now;
          all1 = (if timeFilter \<noteq> ''all''
                  then filter (\<lambda>ticket. createdAt ticket \<ge> threshold) all0 else all0);
          all2 = (if wardFilter \<noteq> ''all''
                  then filter (\<lambda>ticket. ticket_ward ticket = Some wardFilter) all1 else all1);
          wardData = fold add_ticket all2 []
      in map (\<lambda>e. heatmap_of_ward (snd e)) wardData)"

section \<open>Example data\<close>

text \<open>
  A small store used to run the handlers: two citizens' tickets in one ward, one
  earlier upvote, two authority accounts and a citizen account with stored profiles. The
  reporter of the first ticket has no stored profile.
\<close>

definition example_rnd :: "nat \<Rightarrow> string" where
  "example_rnd k = ''r'' @ string_of_nat k"

definition example_location :: location where
  "example_location =
     \<lparr> lat = Some (286 / 10), lng = Some (772 / 10), address = Some ''Connaught Place'',
       ward = Some ''Ward 25'', digiPin = None \<rparr>"

definition example_ticket1 :: ticket where
  "example_ticket1 =
     \<lparr> ticket_id = ''TKT5'', userId = ''citizen1'', category = ''pothole'',
       description = ''deep pothole'', ticket_location = Some example_location,
       imageUrl = None, status = ''submitted'', createdAt = 5, updatedAt = 5,
       assignedTo = None, ticket_resolution = None, upvotes = 1 \<rparr>"

definition example_ticket2 :: ticket where
  "example_ticket2 =
     \<lparr> ticket_id = ''TKT6'', userId = ''citizen2'', category = ''streetlight'',
       description = [], ticket_location = Some example_location,
       imageUrl = None, status = ''submitted'', createdAt = 6, updatedAt = 6,
       assignedTo = None, ticket_resolution = None, upvotes = 2 \<rparr>"

definition example_store :: store where
  "example_store =
     \<lparr> tickets = [(''ticket_TKT5'', example_ticket1), (''ticket_TKT6'', example_ticket2)],
       upvote_records =
         [(''upvote_TKT5_citizen2'',
           \<lparr> upvote_userId = ''citizen2'', upvote_ticketId = ''TKT5'', upvote_createdAt = 7 \<rparr>)],
       user_tickets = [(''user_tickets_citizen1'', [''TKT5'']), (''user_tickets_citizen2'', [''TKT6''])],
       user_profiles =
         [(''user_profile_officer1'', \<lparr> profile_id = ''officer1'', role = ''authority'' \<rparr>),
          (''user_profile_citizen2'', \<lparr> profile_id = ''citizen2'', role = ''citizen'' \<rparr>),
          (''user_profile_officer2'', \<lparr> profile_id = ''officer2'', role = ''authority'' \<rparr>)],
       notifications = [] \<rparr>"

text \<open>A submission with an unknown category and a location without coordinates.\<close>

definition example_bad_body :: ticket_body where
  "example_bad_body =
     \<lparr> body_category = Some ''banana'', body_description = None,
       body_location = Some \<lparr> lat = None, lng = None, address = None, ward = None,
                               digiPin = None \<rparr>,
       body_imageUrl = None \<rparr>"

text \<open>The scenario of the spec: a pothole at (28.6, 77.2).\<close>

definition example_body :: ticket_body where
  "example_body =
     \<lparr> body_category = Some ''pothole'', body_description = None,
       body_location = Some example_location, body_imageUrl = None \<rparr>"

text \<open>The example store after \<open>citizen1\<close> has submitted the pothole at clock reading 8.\<close>

definition example_first_submission :: store where
  "example_first_submission =
     snd (submitTicket (Some ''citizen1'') example_body 8 example_rnd example_store)"

text \<open>A store whose only ticket lies on the equator, at (0, 77).\<close>

definition equator_ticket :: ticket where
  "equator_ticket =
     \<lparr> ticket_id = ''TKT9'', userId = ''citizen1'', category = ''pothole'',
       description = [],
       ticket_location = Some \<lparr> lat = Some 0, lng = Some 77, address = None,
                                 ward = None, digiPin = None \<rparr>,
       imageUrl = None, status = ''submitted'', createdAt = 9, updatedAt = 9,
       assignedTo = None, ticket_resolution = None, upvotes = 0 \<rparr>"

definition equator_store :: store where
  "equator_store =
     \<lparr> tickets = [(''ticket_TKT9'', equator_ticket)], upvote_records = [],
       user_tickets = [], user_profiles = [], notifications = [] \<rparr>"

text \<open>Fifty-one \<open>Notify\<close> calls, numbered by their clock reading.\<close>

definition example_call :: "nat \<Rightarrow> notify_call" where
  "example_call k = (''new_ticket'', ''New Issue Reported'', ''message'', None, k, example_rnd k)"

definition example_calls :: "notify_call list" where
  "example_calls = map example_call [0..<51]"

text \<open>A calendar that counts a day as 86400000 ms and a month as thirty days.\<close>

definition example_daysBack :: "nat \<Rightarrow> nat \<Rightarrow> nat" where
  "example_daysBack now d = now - d * 86400000"

definition example_monthsBack :: "nat \<Rightarrow> nat \<Rightarrow> nat" where
  "example_monthsBack now m = now - m * 30 * 86400000"

section \<open>Store lemmas\<close>

lemma kv_get_set: "kv_get k' (kv_set k v kv) = (if k' = k then Some v else kv_get k' kv)"
  by (simp add: kv_get_def kv_set_def update_conv')

lemma kv_get_set_same: "kv_get k (kv_set k v kv) = Some v"
  by (simp add: kv_get_set)

lemma kv_get_set_other: "k' \<noteq> k \<Longrightarrow> kv_get k' (kv_set k v kv) = kv_get k' kv"
  by (simp add: kv_get_set)

section \<open>Notification feed\<close>

lemma feed_createNotification_same:
  "feed uid (createNotification uid ty ti msg tk now rnd s) =
     take 50 (new_notification ty ti msg tk now rnd # feed uid s)"
  by (simp add: createNotification_def Let_def feed_def kv_get_set_same)

lemma feed_createNotification_other:
  "uid' \<noteq> uid \<Longrightarrow> feed uid' (createNotification uid ty ti msg tk now rnd s) = feed uid' s"
  by (simp add: createNotification_def Let_def feed_def kv_get_set_other)

lemma take_append_take: "take n (xs @ take n ys) = take n (xs @ ys)"
  by (simp add: min_def)

lemma feed_notify_calls:
  "length (feed uid s) \<le> 50 \<Longrightarrow>
   feed uid (notify_calls uid cs s) = take 50 (rev (map call_notification cs) @ feed uid s)"
proof (induction cs arbitrary: s)
  case Nil
  then show ?case by simp
next
  case (Cons c cs)
  obtain ty ti msg tk now rnd where c: "c = (ty, ti, msg, tk, now, rnd)"
    by (cases c) auto
  let ?s' = "createNotification uid ty ti msg tk now rnd s"
  have len: "length (feed uid ?s') \<le> 50"
    by (simp add: feed_createNotification_same)
  have "feed uid (notify_calls uid (c # cs) s) =
        take 50 (rev (map call_notification cs) @
                 take 50 (new_notification ty ti msg tk now rnd # feed uid s))"
    using Cons.IH [OF len] by (simp add: c feed_createNotification_same)
  also have "\<dots> = take 50 (rev (map call_notification cs) @
                 new_notification ty ti msg tk now rnd # feed uid s)"
    by (rule take_append_take)
  finally show ?case
    by (simp add: c)
qed

lemma createNotification_frame [simp]:
  "tickets (createNotification uid ty ti msg tk now rnd s) = tickets s"
  "upvote_records (createNotification uid ty ti msg tk now rnd s) = upvote_records s"
  "user_tickets (createNotification uid ty ti msg tk now rnd s) = user_tickets s"
  "user_profiles (createNotification uid ty ti msg tk now rnd s) = user_profiles s"
  by (simp_all add: createNotification_def Let_def)

lemma feed_cong: "notifications s = notifications s' \<Longrightarrow> feed uid s = feed uid s'"
  by (simp add: feed_def)

text \<open>
  Claim C9. For every recipient, \<open>Notify\<close> puts the new notification at the head of
  the feed and then cuts the feed to its first 50 entries, so the stored feed never holds
  more than 50 entries; after 51 calls on an empty feed the entry of the first call is
  gone and the feed holds the entries of calls 2 to 51, newest first.
\<close>

theorem notify_feed_capped:
  "feed uid (createNotification uid ty ti msg tk now rnd s) =
     take 50 (new_notification ty ti msg tk now rnd # feed uid s)
   \<and> length (feed uid (createNotification uid ty ti msg tk now rnd s)) \<le> 50
   \<and> (length cs = 51 \<and> feed uid s = [] \<longrightarrow>
        feed uid (notify_calls uid cs s) = rev (map call_notification (tl cs)))"
proof (intro conjI impI)
  show "feed uid (createNotification uid ty ti msg tk now rnd s) =
     take 50 (new_notification ty ti msg tk now rnd # feed uid s)"
    by (rule feed_createNotification_same)
  then show "length (feed uid (createNotification uid ty ti msg tk now rnd s)) \<le> 50"
    by simp
next
  assume h: "length cs = 51 \<and> feed uid s = []"
  then obtain c cs' where cs: "cs = c # cs'" and len: "length cs' = 50"
    by (cases cs) auto
  have "feed uid (notify_calls uid cs s) = take 50 (rev (map call_notification cs) @ feed uid s)"
    using h by (intro feed_notify_calls) simp
  also have "\<dots> = rev (map call_notification cs')"
    using h len by (simp add: cs)
  finally show "feed uid (notify_calls uid cs s) = rev (map call_notification (tl cs))"
    by (simp add: cs)
qed

theorem notify_feed_capped_witness:
  "length example_calls = 51 \<and> feed ''officer1'' example_store = [] \<and>
   feed ''officer1'' (notify_calls ''officer1'' example_calls example_store) =
     rev (map call_notification (tl example_calls)) \<and>
   length (feed ''officer1'' (notify_calls ''officer1'' example_calls example_store)) = 50"
  using notify_feed_capped [of "''officer1''" "''x''" "''y''" "''z''" None 0 "[]" example_store example_calls]
  by (simp add: example_calls_def feed_def example_store_def kv_get_def)

section \<open>Upvote\<close>

text \<open>
  Claim C1, as amended. For an authenticated voter, \<open>Upvote\<close> answers 404
  \<open>Ticket not found\<close> when no ticket is stored under the id, and answers 400
  \<open>Already upvoted\<close> (not 409) when an upvote record is stored under the key of
  (ticket id, voter id); in both cases the store, and with it the upvote count, is left
  as it was.
\<close>

theorem upvote_rejections:
  "(kv_get (''ticket_'' @ ticketId) (tickets s) = None \<longrightarrow>
      upvoteTicket (Some uid) ticketId now rnd s = (Json_error ''Ticket not found'' 404, s))
   \<and> (kv_get (''ticket_'' @ ticketId) (tickets s) = Some t \<and>
        kv_get (''upvote_'' @ ticketId @ ''_'' @ uid) (upvote_records s) = Some u \<longrightarrow>
      upvoteTicket (Some uid) ticketId now rnd s = (Json_error ''Already upvoted'' 400, s))"
  by (simp add: upvoteTicket_def)

theorem upvote_rejections_witness:
  "kv_get (''ticket_'' @ ''TKT7'') (tickets example_store) = None \<and>
   upvoteTicket (Some ''citizen2'') ''TKT7'' 10 example_rnd example_store =
     (Json_error ''Ticket not found'' 404, example_store) \<and>
   kv_get (''ticket_'' @ ''TKT5'') (tickets example_store) = Some example_ticket1 \<and>
   kv_get (''upvote_'' @ ''TKT5'' @ ''_'' @ ''citizen2'') (upvote_records example_store) =
     Some \<lparr> upvote_userId = ''citizen2'', upvote_ticketId = ''TKT5'', upvote_createdAt = 7 \<rparr> \<and>
   upvoteTicket (Some ''citizen2'') ''TKT5'' 10 example_rnd example_store =
     (Json_error ''Already upvoted'' 400, example_store)"
  using upvote_rejections [of "''TKT7''" example_store "''citizen2''" 10 example_rnd]
    upvote_rejections [of "''TKT5''" example_store "''citizen2''" 10 example_rnd example_ticket1
      "\<lparr> upvote_userId = ''citizen2'', upvote_ticketId = ''TKT5'', upvote_createdAt = 7 \<rparr>"]
  by (simp add: example_store_def kv_get_def)

text \<open>
  Claim C1 as stated fails: a second upvote of ticket \<open>TKT5\<close> by \<open>citizen2\<close>, whose
  upvote record is stored, is answered with status 400, not 409.
\<close>

theorem upvote_conflict_status_counterexample:
  "kv_get (''upvote_'' @ ''TKT5'' @ ''_'' @ ''citizen2'') (upvote_records example_store) \<noteq> None \<and>
   http_status (fst (upvoteTicket (Some ''citizen2'') ''TKT5'' 10 example_rnd example_store)) = 400 \<and>
   http_status (fst (upvoteTicket (Some ''citizen2'') ''TKT5'' 10 example_rnd example_store)) \<noteq> 409"
  by (simp add: upvoteTicket_def example_store_def kv_get_def http_status_def)

text \<open>
  Claim C2. For a stored ticket and an authenticated voter with no upvote record for it,
  \<open>Upvote\<close> succeeds, returns the ticket with \<open>upvotes\<close> raised by exactly 1, stores
  that ticket and the upvote record, and puts an unread notification of type
  \<open>ticket_upvote\<close>, whose message ends with the new total, at the head of the
  reporter's feed when the voter is not the reporter; when the voter is the reporter no
  notification is written.
\<close>

theorem upvote_success:
  assumes tk: "kv_get (''ticket_'' @ ticketId) (tickets s) = Some t"
    and fresh: "kv_get (''upvote_'' @ ticketId @ ''_'' @ uid) (upvote_records s) = None"
  shows "fst (upvoteTicket (Some uid) ticketId now rnd s) =
           Json_ok (t\<lparr>upvotes := upvotes t + 1\<rparr>, ''Upvoted successfully'')
     \<and> kv_get (''ticket_'' @ ticketId) (tickets (snd (upvoteTicket (Some uid) ticketId now rnd s))) =
           Some (t\<lparr>upvotes := upvotes t + 1\<rparr>)
     \<and> kv_get (''upvote_'' @ ticketId @ ''_'' @ uid)
           (upvote_records (snd (upvoteTicket (Some uid) ticketId now rnd s))) =
           Some \<lparr> upvote_userId = uid, upvote_ticketId = ticketId, upvote_createdAt = now \<rparr>
     \<and> (userId t \<noteq> uid \<longrightarrow>
          feed (userId t) (snd (upvoteTicket (Some uid) ticketId now rnd s)) =
            take 50 (\<lparr> notification_id = ''notif_'' @ string_of_nat now @ ''_'' @ rnd 0,
                       notification_type = ''ticket_upvote'',
                       title = ''Your Issue Got Support'',
                       message = ''Someone upvoted your ticket #'' @ ticketId @
                                   ''. Total votes: '' @ string_of_nat (upvotes t + 1),
                       notification_ticketId = Some ticketId, read = False,
                       notification_createdAt = now \<rparr> # feed (userId t) s))
     \<and> (userId t = uid \<longrightarrow>
          notifications (snd (upvoteTicket (Some uid) ticketId now rnd s)) = notifications s)"
proof -
  let ?t' = "t\<lparr>upvotes := upvotes t + 1\<rparr>"
  let ?s2 = "s\<lparr>upvote_records :=
                 kv_set (''upvote_'' @ ticketId @ ''_'' @ uid)
                   \<lparr> upvote_userId = uid, upvote_ticketId = ticketId, upvote_createdAt = now \<rparr>
                   (upvote_records s),
               tickets := kv_set (''ticket_'' @ ticketId) ?t' (tickets s)\<rparr>"
  let ?s3 = "if userId t \<noteq> uid
             then createNotification (userId t) ''ticket_upvote'' ''Your Issue Got Support''
                    (''Someone upvoted your ticket #'' @ ticketId @ ''. Total votes: '' @
                       string_of_nat (upvotes t + 1))
                    (Some ticketId) now (rnd 0) ?s2
             else ?s2"
  have run: "upvoteTicket (Some uid) ticketId now rnd s =
               (Json_ok (?t', ''Upvoted successfully''), ?s3)"
    using tk fresh by (simp add: upvoteTicket_def Let_def)
  have f2: "feed (userId t) ?s2 = feed (userId t) s"
    by (rule feed_cong) simp
  have n: "userId t \<noteq> uid \<Longrightarrow>
           feed (userId t) ?s3 =
             take 50 (\<lparr> notification_id = ''notif_'' @ string_of_nat now @ ''_'' @ rnd 0,
                       notification_type = ''ticket_upvote'',
                       title = ''Your Issue Got Support'',
                       message = ''Someone upvoted your ticket #'' @ ticketId @
                                   ''. Total votes: '' @ string_of_nat (upvotes t + 1),
                       notification_ticketId = Some ticketId, read = False,
                       notification_createdAt = now \<rparr> # feed (userId t) s)"
    using f2 by (simp add: feed_createNotification_same new_notification_def)
  show ?thesis
    unfolding run using n by (simp add: kv_get_set_same)
qed

theorem upvote_success_witness:
  "kv_get (''ticket_'' @ ''TKT6'') (tickets example_store) = Some example_ticket2 \<and>
   kv_get (''upvote_'' @ ''TKT6'' @ ''_'' @ ''citizen1'') (upvote_records example_store) = None \<and>
   fst (upvoteTicket (Some ''citizen1'') ''TKT6'' 10 example_rnd example_store) =
     Json_ok (example_ticket2\<lparr>upvotes := 3\<rparr>, ''Upvoted successfully'') \<and>
   feed ''citizen2'' (snd (upvoteTicket (Some ''citizen1'') ''TKT6'' 10 example_rnd example_store)) =
     [\<lparr> notification_id = ''notif_10_r0'', notification_type = ''ticket_upvote'',
        title = ''Your Issue Got Support'',
        message = ''Someone upvoted your ticket #TKT6. Total votes: 3'',
        notification_ticketId = Some ''TKT6'', read = False, notification_createdAt = 10 \<rparr>]"
proof -
  have e: "string_of_nat 3 = ''3''" "string_of_nat 10 = ''10''" "example_rnd 0 = ''r0''"
    by (simp_all add: example_rnd_def string_of_nat.simps digit_char_def)
  from upvote_success [of "''TKT6''" example_store example_ticket2 "''citizen1''" 10 example_rnd]
  show ?thesis
    by (simp add: example_store_def kv_get_def example_ticket2_def feed_def e)
qed

section \<open>Status update\<close>

lemma feed_frame [simp]:
  "feed uid (s\<lparr>tickets := x\<rparr>) = feed uid s"
  "feed uid (s\<lparr>upvote_records := y\<rparr>) = feed uid s"
  "feed uid (s\<lparr>user_tickets := z\<rparr>) = feed uid s"
  by (simp_all add: feed_def)

lemma notify_owner_frame [simp]:
  "tickets (notify_owner t ticketId st proofUrl now rnd s) = tickets s"
  "user_profiles (notify_owner t ticketId st proofUrl now rnd s) = user_profiles s"
  by (simp_all add: notify_owner_def Let_def split: option.splits)

lemma with_resolution_fields [simp]:
  "status (with_resolution res proofUrl uid now t) = status t"
  "updatedAt (with_resolution res proofUrl uid now t) = updatedAt t"
  "assignedTo (with_resolution res proofUrl uid now t) = assignedTo t"
  "userId (with_resolution res proofUrl uid now t) = userId t"
  by (simp_all add: with_resolution_def split: option.splits)

lemma updateStatus_run:
  assumes "kv_get (''user_profile_'' @ uid) (user_profiles s) = Some p"
    and "role p = ''authority''"
    and "kv_get (''ticket_'' @ ticketId) (tickets s) = Some t"
  shows "updateStatus (Some uid) ticketId st res proofUrl now rnd s =
     (Json_ok (with_resolution res proofUrl uid now
                 (t\<lparr>status := st, updatedAt := now, assignedTo := Some uid\<rparr>),
               ''Ticket updated successfully''),
      notify_owner (with_resolution res proofUrl uid now
                      (t\<lparr>status := st, updatedAt := now, assignedTo := Some uid\<rparr>))
        ticketId st proofUrl now rnd
        (s\<lparr>tickets := kv_set (''ticket_'' @ ticketId)
                         (with_resolution res proofUrl uid now
                            (t\<lparr>status := st, updatedAt := now, assignedTo := Some uid\<rparr>))
                         (tickets s)\<rparr>))"
  using assms by (simp add: updateStatus_def Let_def)

text \<open>
  Claim C5. For a stored ticket and an authenticated actor whose stored profile has the
  authority role, \<open>UpdateStatus\<close> succeeds and the ticket it returns and stores has
  status \<open>newStatus\<close>, \<open>updatedAt = now\<close> and \<open>assignedTo\<close> the actor; when
  resolution notes are present (a non-empty string, the source's truthiness test) its
  resolution record holds the notes, the proof image, resolver = actor and
  \<open>resolvedAt = now\<close>, whatever the new status is; without notes the resolution record
  is left as it was.
\<close>

theorem updateStatus_sets_fields:
  assumes "kv_get (''user_profile_'' @ uid) (user_profiles s) = Some p"
    and "role p = ''authority''"
    and "kv_get (''ticket_'' @ ticketId) (tickets s) = Some t"
  shows "\<exists>t'. fst (updateStatus (Some uid) ticketId st res proofUrl now rnd s) =
                 Json_ok (t', ''Ticket updated successfully'')
     \<and> kv_get (''ticket_'' @ ticketId)
          (tickets (snd (updateStatus (Some uid) ticketId st res proofUrl now rnd s))) = Some t'
     \<and> status t' = st \<and> updatedAt t' = now \<and> assignedTo t' = Some uid
     \<and> (\<forall>r. res = Some r \<and> r \<noteq> [] \<longrightarrow>
           ticket_resolution t' =
             Some \<lparr> resolution_notes = r, proofImageUrl = or_null proofUrl,
                    resolvedBy = uid, resolvedAt = now \<rparr>)
     \<and> (\<not> truthy_string res \<longrightarrow> ticket_resolution t' = ticket_resolution t)"
proof -
  let ?t' = "with_resolution res proofUrl uid now
               (t\<lparr>status := st, updatedAt := now, assignedTo := Some uid\<rparr>)"
  have r: "\<forall>r. res = Some r \<and> r \<noteq> [] \<longrightarrow>
           ticket_resolution ?t' =
             Some \<lparr> resolution_notes = r, proofImageUrl = or_null proofUrl,
                    resolvedBy = uid, resolvedAt = now \<rparr>"
    by (simp add: with_resolution_def)
  have n: "\<not> truthy_string res \<longrightarrow> ticket_resolution ?t' = ticket_resolution t"
    by (cases res) (simp_all add: with_resolution_def)
  show ?thesis
    unfolding updateStatus_run [OF assms]
    using r n by (intro exI [of _ ?t']) (simp add: kv_get_set_same)
qed

theorem updateStatus_sets_fields_witness:
  "kv_get (''user_profile_'' @ ''officer1'') (user_profiles example_store) =
     Some \<lparr> profile_id = ''officer1'', role = ''authority'' \<rparr> \<and>
   kv_get (''ticket_'' @ ''TKT6'') (tickets example_store) = Some example_ticket2 \<and>
   (\<exists>t'. fst (updateStatus (Some ''officer1'') ''TKT6'' ''in-progress'' (Some ''crew sent'') None 20
                 example_rnd example_store) = Json_ok (t', ''Ticket updated successfully'')
      \<and> status t' = ''in-progress'' \<and> updatedAt t' = 20 \<and> assignedTo t' = Some ''officer1''
      \<and> ticket_resolution t' =
          Some \<lparr> resolution_notes = ''crew sent'', proofImageUrl = None,
                 resolvedBy = ''officer1'', resolvedAt = 20 \<rparr>)"
proof -
  have p: "kv_get (''user_profile_'' @ ''officer1'') (user_profiles example_store) =
             Some \<lparr> profile_id = ''officer1'', role = ''authority'' \<rparr>"
    by (simp add: example_store_def kv_get_def)
  have r: "role \<lparr> profile_id = ''officer1'', role = ''authority'' \<rparr> = ''authority''"
    by simp
  have t: "kv_get (''ticket_'' @ ''TKT6'') (tickets example_store) = Some example_ticket2"
    by (simp add: example_store_def kv_get_def)
  from updateStatus_sets_fields [OF p r t, of "''in-progress''" "Some ''crew sent''" None 20 example_rnd]
  obtain t' where
    "fst (updateStatus (Some ''officer1'') ''TKT6'' ''in-progress'' (Some ''crew sent'') None 20
            example_rnd example_store) = Json_ok (t', ''Ticket updated successfully'')"
    "status t' = ''in-progress''" "updatedAt t' = 20" "assignedTo t' = Some ''officer1''"
    "ticket_resolution t' =
       Some \<lparr> resolution_notes = ''crew sent'', proofImageUrl = None,
              resolvedBy = ''officer1'', resolvedAt = 20 \<rparr>"
    by auto
  with p t show ?thesis by blast
qed

lemma take_Cons_take: "take n (x # take n ys) = take n (x # ys)"
  using take_append_take [of n "[x]" ys] by simp

text \<open>
  Claim C6, as amended. When the reporter of the ticket has a stored user profile, a
  successful \<open>UpdateStatus\<close> puts a status-update entry (type \<open>ticket_update\<close>) on
  the reporter's feed, and on top of it a resolution entry (type \<open>resolution\<close>)
  exactly when the status is \<open>completed\<close> and a proof image is supplied: the
  resolution entry, created second, is then the first entry of the newest-first feed and
  the status-update entry the second; otherwise the status-update entry is the first
  entry and nothing else is added. When the reporter has no stored profile the update
  writes no notification.
\<close>

theorem updateStatus_notifies_owner:
  assumes "kv_get (''user_profile_'' @ uid) (user_profiles s) = Some p"
    and "role p = ''authority''"
    and "kv_get (''ticket_'' @ ticketId) (tickets s) = Some t"
  shows "(kv_get (''user_profile_'' @ userId t) (user_profiles s) \<noteq> None \<longrightarrow>
          feed (userId t) (snd (updateStatus (Some uid) ticketId st res proofUrl now rnd s)) =
            take 50
              ((if st = ''completed'' \<and> truthy_string proofUrl
                then [resolution_notification ticketId now (rnd 1)] else []) @
               status_update_notification ticketId st now (rnd 0) # feed (userId t) s))
     \<and> (kv_get (''user_profile_'' @ userId t) (user_profiles s) \<noteq> None \<and>
          st = ''completed'' \<and> truthy_string proofUrl \<longrightarrow>
          feed (userId t) (snd (updateStatus (Some uid) ticketId st res proofUrl now rnd s)) ! 0 =
            resolution_notification ticketId now (rnd 1) \<and>
          feed (userId t) (snd (updateStatus (Some uid) ticketId st res proofUrl now rnd s)) ! 1 =
            status_update_notification ticketId st now (rnd 0))
     \<and> (kv_get (''user_profile_'' @ userId t) (user_profiles s) = None \<longrightarrow>
          notifications (snd (updateStatus (Some uid) ticketId st res proofUrl now rnd s)) =
            notifications s)
     \<and> (kv_get (''user_profile_'' @ userId t) (user_profiles s) \<noteq> None \<and>
          st = ''completed'' \<and> truthy_string proofUrl \<longrightarrow>
          notification_type
            (feed (userId t) (snd (updateStatus (Some uid) ticketId st res proofUrl now rnd s)) ! 0) =
            ''resolution'' \<and>
          message
            (feed (userId t) (snd (updateStatus (Some uid) ticketId st res proofUrl now rnd s)) ! 0) =
            ''Your ticket #'' @ ticketId @ '' has been completed with proof of resolution'' \<and>
          notification_ticketId
            (feed (userId t) (snd (updateStatus (Some uid) ticketId st res proofUrl now rnd s)) ! 0) =
            Some ticketId \<and>
          notification_type
            (feed (userId t) (snd (updateStatus (Some uid) ticketId st res proofUrl now rnd s)) ! 1) =
            ''ticket_update'' \<and>
          message
            (feed (userId t) (snd (updateStatus (Some uid) ticketId st res proofUrl now rnd s)) ! 1) =
            ''Your ticket #'' @ ticketId @ '' has been resolved'' \<and>
          notification_ticketId
            (feed (userId t) (snd (updateStatus (Some uid) ticketId st res proofUrl now rnd s)) ! 1) =
            Some ticketId)
     \<and> (kv_get (''user_profile_'' @ userId t) (user_profiles s) \<noteq> None \<and>
          \<not> (st = ''completed'' \<and> truthy_string proofUrl) \<longrightarrow>
          notification_type
            (feed (userId t) (snd (updateStatus (Some uid) ticketId st res proofUrl now rnd s)) ! 0) =
            ''ticket_update'' \<and>
          message
            (feed (userId t) (snd (updateStatus (Some uid) ticketId st res proofUrl now rnd s)) ! 0) =
            ''Your ticket #'' @ ticketId @ '' has been '' @
              (if st = ''completed'' then ''resolved'' else replace_dash st) \<and>
          notification_ticketId
            (feed (userId t) (snd (updateStatus (Some uid) ticketId st res proofUrl now rnd s)) ! 0) =
            Some ticketId \<and>
          tl (feed (userId t) (snd (updateStatus (Some uid) ticketId st res proofUrl now rnd s))) =
            take 49 (feed (userId t) s))"
proof -
  let ?t' = "with_resolution res proofUrl uid now
               (t\<lparr>status := st, updatedAt := now, assignedTo := Some uid\<rparr>)"
  let ?s1 = "s\<lparr>tickets := kv_set (''ticket_'' @ ticketId) ?t' (tickets s)\<rparr>"
  have eq: "feed (userId t) (notify_owner ?t' ticketId st proofUrl now rnd ?s1) =
           take 50
             ((if st = ''completed'' \<and> truthy_string proofUrl
               then [resolution_notification ticketId now (rnd 1)] else []) @
              status_update_notification ticketId st now (rnd 0) # feed (userId t) s)"
    if q: "kv_get (''user_profile_'' @ userId t) (user_profiles s) = Some q" for q
  proof -
    have q': "kv_get (''user_profile_'' @ userId ?t') (user_profiles ?s1) = Some q"
      using q by simp
    show ?thesis
      unfolding notify_owner_def q'
      by (simp add: Let_def feed_createNotification_same take_Cons_take new_notification_def
          resolution_notification_def status_update_notification_def del: take_Suc_Cons)
  qed
  have none: "notifications (notify_owner ?t' ticketId st proofUrl now rnd ?s1) = notifications s"
    if q: "kv_get (''user_profile_'' @ userId t) (user_profiles s) = None"
  proof -
    have q': "kv_get (''user_profile_'' @ userId ?t') (user_profiles ?s1) = None"
      using q by simp
    show ?thesis
      unfolding notify_owner_def q' by simp
  qed
  define s' where "s' = snd (updateStatus (Some uid) ticketId st res proofUrl now rnd s)"
  have s': "s' = notify_owner ?t' ticketId st proofUrl now rnd ?s1"
    unfolding s'_def updateStatus_run [OF assms] by simp
  have a: "kv_get (''user_profile_'' @ userId t) (user_profiles s) \<noteq> None \<longrightarrow>
          feed (userId t) s' =
            take 50
              ((if st = ''completed'' \<and> truthy_string proofUrl
                then [resolution_notification ticketId now (rnd 1)] else []) @
               status_update_notification ticketId st now (rnd 0) # feed (userId t) s)"
    unfolding s' using eq by blast
  have b: "kv_get (''user_profile_'' @ userId t) (user_profiles s) \<noteq> None \<and>
          st = ''completed'' \<and> truthy_string proofUrl \<longrightarrow>
          feed (userId t) s' ! 0 = resolution_notification ticketId now (rnd 1) \<and>
          feed (userId t) s' ! 1 = status_update_notification ticketId st now (rnd 0)"
  proof
    assume h: "kv_get (''user_profile_'' @ userId t) (user_profiles s) \<noteq> None \<and>
          st = ''completed'' \<and> truthy_string proofUrl"
    with a have "feed (userId t) s' =
        take 50 (resolution_notification ticketId now (rnd 1) #
                 status_update_notification ticketId st now (rnd 0) # feed (userId t) s)"
      by simp
    then show "feed (userId t) s' ! 0 = resolution_notification ticketId now (rnd 1) \<and>
          feed (userId t) s' ! 1 = status_update_notification ticketId st now (rnd 0)"
      by simp
  qed
  have c: "kv_get (''user_profile_'' @ userId t) (user_profiles s) = None \<longrightarrow>
          notifications s' = notifications s"
    unfolding s' using none by blast
  have d: "kv_get (''user_profile_'' @ userId t) (user_profiles s) \<noteq> None \<and>
          st = ''completed'' \<and> truthy_string proofUrl \<longrightarrow>
          notification_type (feed (userId t) s' ! 0) = ''resolution'' \<and>
          message (feed (userId t) s' ! 0) =
            ''Your ticket #'' @ ticketId @ '' has been completed with proof of resolution'' \<and>
          notification_ticketId (feed (userId t) s' ! 0) = Some ticketId \<and>
          notification_type (feed (userId t) s' ! 1) = ''ticket_update'' \<and>
          message (feed (userId t) s' ! 1) = ''Your ticket #'' @ ticketId @ '' has been resolved'' \<and>
          notification_ticketId (feed (userId t) s' ! 1) = Some ticketId"
  proof
    assume h: "kv_get (''user_profile_'' @ userId t) (user_profiles s) \<noteq> None \<and>
          st = ''completed'' \<and> truthy_string proofUrl"
    with b have 0: "feed (userId t) s' ! 0 = resolution_notification ticketId now (rnd 1)"
      and 1: "feed (userId t) s' ! 1 = status_update_notification ticketId st now (rnd 0)"
      by blast+
    from h have st: "st = ''completed''" by blast
    show "notification_type (feed (userId t) s' ! 0) = ''resolution'' \<and>
          message (feed (userId t) s' ! 0) =
            ''Your ticket #'' @ ticketId @ '' has been completed with proof of resolution'' \<and>
          notification_ticketId (feed (userId t) s' ! 0) = Some ticketId \<and>
          notification_type (feed (userId t) s' ! 1) = ''ticket_update'' \<and>
          message (feed (userId t) s' ! 1) = ''Your ticket #'' @ ticketId @ '' has been resolved'' \<and>
          notification_ticketId (feed (userId t) s' ! 1) = Some ticketId"
      unfolding 0 1 st
      by (simp add: resolution_notification_def status_update_notification_def)
  qed
  have e: "kv_get (''user_profile_'' @ userId t) (user_profiles s) \<noteq> None \<and>
          \<not> (st = ''completed'' \<and> truthy_string proofUrl) \<longrightarrow>
          notification_type (feed (userId t) s' ! 0) = ''ticket_update'' \<and>
          message (feed (userId t) s' ! 0) =
            ''Your ticket #'' @ ticketId @ '' has been '' @
              (if st = ''completed'' then ''resolved'' else replace_dash st) \<and>
          notification_ticketId (feed (userId t) s' ! 0) = Some ticketId \<and>
          tl (feed (userId t) s') = take 49 (feed (userId t) s)"
  proof
    assume h: "kv_get (''user_profile_'' @ userId t) (user_profiles s) \<noteq> None \<and>
          \<not> (st = ''completed'' \<and> truthy_string proofUrl)"
    with a have f: "feed (userId t) s' =
        status_update_notification ticketId st now (rnd 0) # take 49 (feed (userId t) s)"
      by auto
    show "notification_type (feed (userId t) s' ! 0) = ''ticket_update'' \<and>
          message (feed (userId t) s' ! 0) =
            ''Your ticket #'' @ ticketId @ '' has been '' @
              (if st = ''completed'' then ''resolved'' else replace_dash st) \<and>
          notification_ticketId (feed (userId t) s' ! 0) = Some ticketId \<and>
          tl (feed (userId t) s') = take 49 (feed (userId t) s)"
      unfolding f by (simp add: status_update_notification_def)
  qed
  from a b c d e show ?thesis
    unfolding s'_def by blast
qed

theorem updateStatus_notifies_owner_witness:
  "kv_get (''user_profile_'' @ ''officer1'') (user_profiles example_store) =
     Some \<lparr> profile_id = ''officer1'', role = ''authority'' \<rparr> \<and>
   kv_get (''ticket_'' @ ''TKT6'') (tickets example_store) = Some example_ticket2 \<and>
   kv_get (''user_profile_'' @ userId example_ticket2) (user_profiles example_store) =
     Some \<lparr> profile_id = ''citizen2'', role = ''citizen'' \<rparr> \<and>
   feed ''citizen2''
     (snd (updateStatus (Some ''officer1'') ''TKT6'' ''completed'' (Some ''fixed'')
             (Some ''proof.jpg'') 20 example_rnd example_store)) =
     [\<lparr> notification_id = ''notif_20_r1'', notification_type = ''resolution'',
        title = ''Issue Resolved'',
        message = ''Your ticket #TKT6 has been completed with proof of resolution'',
        notification_ticketId = Some ''TKT6'', read = False, notification_createdAt = 20 \<rparr>,
      \<lparr> notification_id = ''notif_20_r0'', notification_type = ''ticket_update'',
        title = ''Ticket Status Updated'',
        message = ''Your ticket #TKT6 has been resolved'',
        notification_ticketId = Some ''TKT6'', read = False, notification_createdAt = 20 \<rparr>] \<and>
   feed ''citizen2''
     (snd (updateStatus (Some ''officer1'') ''TKT6'' ''in-progress'' None
             (Some ''proof.jpg'') 20 example_rnd example_store)) =
     [\<lparr> notification_id = ''notif_20_r0'', notification_type = ''ticket_update'',
        title = ''Ticket Status Updated'',
        message = ''Your ticket #TKT6 has been in progress'',
        notification_ticketId = Some ''TKT6'', read = False, notification_createdAt = 20 \<rparr>] \<and>
   kv_get (''ticket_'' @ ''TKT5'') (tickets example_store) = Some example_ticket1 \<and>
   kv_get (''user_profile_'' @ userId example_ticket1) (user_profiles example_store) = None \<and>
   notifications
     (snd (updateStatus (Some ''officer1'') ''TKT5'' ''completed'' (Some ''fixed'')
             (Some ''proof.jpg'') 20 example_rnd example_store)) = notifications example_store"
proof -
  have p: "kv_get (''user_profile_'' @ ''officer1'') (user_profiles example_store) =
             Some \<lparr> profile_id = ''officer1'', role = ''authority'' \<rparr>"
    by (simp add: example_store_def kv_get_def)
  have r: "role \<lparr> profile_id = ''officer1'', role = ''authority'' \<rparr> = ''authority''"
    by simp
  have t6: "kv_get (''ticket_'' @ ''TKT6'') (tickets example_store) = Some example_ticket2"
    and t5: "kv_get (''ticket_'' @ ''TKT5'') (tickets example_store) = Some example_ticket1"
    by (simp_all add: example_store_def kv_get_def)
  have q6: "kv_get (''user_profile_'' @ userId example_ticket2) (user_profiles example_store) =
              Some \<lparr> profile_id = ''citizen2'', role = ''citizen'' \<rparr>"
    and q5: "kv_get (''user_profile_'' @ userId example_ticket1) (user_profiles example_store) = None"
    by (simp_all add: example_store_def kv_get_def example_ticket1_def example_ticket2_def)
  have e: "feed ''citizen2'' example_store = []" "userId example_ticket2 = ''citizen2''"
    "example_rnd 0 = ''r0''" "example_rnd (Suc 0) = ''r1''" "string_of_nat 20 = ''20''"
    by (simp_all add: example_store_def kv_get_def example_ticket2_def feed_def example_rnd_def
        string_of_nat.simps digit_char_def)
  from updateStatus_notifies_owner [OF p r t6, of "''completed''" "Some ''fixed''"
      "Some ''proof.jpg''" 20 example_rnd]
    updateStatus_notifies_owner [OF p r t6, of "''in-progress''" None
      "Some ''proof.jpg''" 20 example_rnd]
    updateStatus_notifies_owner [OF p r t5, of "''completed''" "Some ''fixed''"
      "Some ''proof.jpg''" 20 example_rnd]
  show ?thesis
    using p t6 t5 q6 q5
    by (simp add: e resolution_notification_def status_update_notification_def)
qed

text \<open>
  Claim C6 as stated fails: ticket \<open>TKT5\<close> was reported by \<open>citizen1\<close>, who has no
  stored profile; the update to \<open>completed\<close> with a proof image succeeds and the
  reporter's feed stays empty.
\<close>

theorem updateStatus_no_profile_counterexample:
  "kv_get ''ticket_TKT5'' (tickets example_store) = Some example_ticket1 \<and>
   userId example_ticket1 = ''citizen1'' \<and>
   kv_get ''user_profile_citizen1'' (user_profiles example_store) = None \<and>
   http_status (fst (updateStatus (Some ''officer1'') ''TKT5'' ''completed'' (Some ''fixed'')
                       (Some ''proof.jpg'') 20 example_rnd example_store)) = 200 \<and>
   feed ''citizen1''
     (snd (updateStatus (Some ''officer1'') ''TKT5'' ''completed'' (Some ''fixed'')
             (Some ''proof.jpg'') 20 example_rnd example_store)) = []"
  by (simp add: updateStatus_def example_store_def kv_get_def kv_set_def example_ticket1_def
      notify_owner_def with_resolution_def http_status_def feed_def Let_def)

section \<open>Ticket submission\<close>

lemma digit_char_inj: "a < 10 \<Longrightarrow> b < 10 \<Longrightarrow> digit_char a = digit_char b \<Longrightarrow> a = b"
proof -
  assume a: "a < 10" and b: "b < 10" and e: "digit_char a = digit_char b"
  have d: "distinct ''0123456789''" by simp
  have "length ''0123456789'' = 10" by simp
  with a b e d show "a = b"
    unfolding digit_char_def by (metis nth_eq_iff_index_eq)
qed

lemma string_of_nat_nonempty: "string_of_nat n \<noteq> []"
  by (subst string_of_nat.simps) simp

lemma string_of_nat_inj: "string_of_nat m = string_of_nat n \<Longrightarrow> m = n"
proof (induction m arbitrary: n rule: string_of_nat.induct)
  case (1 m)
  show ?case
  proof (cases "m < 10")
    case True
    then have m: "string_of_nat m = [digit_char m]"
      by (subst string_of_nat.simps) simp
    show ?thesis
    proof (cases "n < 10")
      case True
      then have "string_of_nat n = [digit_char n]"
        by (subst string_of_nat.simps) simp
      with m "1.prems" \<open>m < 10\<close> True show ?thesis
        by (simp add: digit_char_inj)
    next
      case False
      then have "string_of_nat n = string_of_nat (n div 10) @ [digit_char (n mod 10)]"
        by (subst string_of_nat.simps) simp
      with m "1.prems" string_of_nat_nonempty [of "n div 10"] show ?thesis
        by simp
    qed
  next
    case False
    then have m: "string_of_nat m = string_of_nat (m div 10) @ [digit_char (m mod 10)]"
      by (subst string_of_nat.simps) simp
    show ?thesis
    proof (cases "n < 10")
      case True
      then have "string_of_nat n = [digit_char n]"
        by (subst string_of_nat.simps) simp
      with m "1.prems" string_of_nat_nonempty [of "m div 10"] show ?thesis
        by simp
    next
      case nf: False
      then have "string_of_nat n = string_of_nat (n div 10) @ [digit_char (n mod 10)]"
        by (subst string_of_nat.simps) simp
      with m "1.prems" have q: "string_of_nat (m div 10) = string_of_nat (n div 10)"
        and r: "digit_char (m mod 10) = digit_char (n mod 10)"
        by simp_all
      from "1.IH" [OF False q] have "m div 10 = n div 10" .
      moreover from r have "m mod 10 = n mod 10"
        by (intro digit_char_inj) simp_all
      ultimately show ?thesis
        by (metis div_mult_mod_eq)
    qed
  qed
qed

lemma authorities_frame [simp]:
  "authorities (s\<lparr>tickets := x\<rparr>) = authorities s"
  "authorities (s\<lparr>user_tickets := z\<rparr>) = authorities s"
  by (simp_all add: authorities_def)

lemma notify_authorities_frame [simp]:
  "tickets (notify_authorities as cat loc tid now rnd k s) = tickets s"
  "user_tickets (notify_authorities as cat loc tid now rnd k s) = user_tickets s"
  by (induction as arbitrary: k s) simp_all

lemma feed_notify_authorities_other:
  "uid \<notin> profile_id ` set as \<Longrightarrow>
   feed uid (notify_authorities as cat loc tid now rnd k s) = feed uid s"
  by (induction as arbitrary: k s) (simp_all add: feed_createNotification_other)

lemma feed_notify_authorities_nth:
  "distinct (map profile_id as) \<Longrightarrow> i < length as \<Longrightarrow>
   feed (profile_id (as ! i)) (notify_authorities as cat loc tid now rnd k s) =
     take 50 (new_ticket_notification cat loc tid now (rnd (k + i)) # feed (profile_id (as ! i)) s)"
proof (induction as arbitrary: k s i)
  case Nil
  then show ?case by simp
next
  case (Cons a as)
  show ?case
  proof (cases i)
    case 0
    from Cons.prems have "profile_id a \<notin> profile_id ` set as" by simp
    then show ?thesis
      by (simp add: 0 feed_notify_authorities_other feed_createNotification_same
          new_ticket_notification_def new_notification_def)
  next
    case (Suc j)
    with Cons.prems have j: "j < length as" and d: "distinct (map profile_id as)"
      and na: "profile_id a \<notin> profile_id ` set as"
      by auto
    from j have "profile_id (as ! j) \<in> profile_id ` set as"
      by simp
    with na have ne: "profile_id (as ! j) \<noteq> profile_id a"
      by auto
    show ?thesis
      using Cons.IH [OF d j] ne by (simp add: Suc feed_createNotification_other)
  qed
qed

lemma submitTicket_run:
  assumes "body_category body = Some cat" and "cat \<noteq> []" and "body_location body = Some loc"
  shows "submitTicket (Some uid) body now rnd s = submit_ok uid cat body loc now rnd s"
  using assms by (simp add: submitTicket_def)

lemma set_kv_getByPrefix:
  "set (kv_getByPrefix p kv) = {v. \<exists>k. prefix p k \<and> kv_get k kv = Some v}"
proof -
  have d: "distinct (map fst (AList.clearjunk kv))"
    by (rule distinct_clearjunk)
  have "(k, v) \<in> set (AList.clearjunk kv) \<longleftrightarrow> kv_get k kv = Some v" for k v
    using map_of_eq_Some_iff [OF d, of k v] by (simp add: kv_get_def map_of_clearjunk)
  then show ?thesis
    by (force simp add: kv_getByPrefix_def)
qed

text \<open>
  The recipients of a submission are exactly the profiles stored under a
  \<^verbatim>\<open>user_profile_\<close> key whose role is \<open>authority\<close>.
\<close>

lemma set_authorities:
  "set (authorities s) =
     {p. role p = ''authority'' \<and>
         (\<exists>k. prefix ''user_profile_'' k \<and> kv_get k (user_profiles s) = Some p)}"
  by (auto simp add: authorities_def set_kv_getByPrefix)

text \<open>
  What a valid submission does, whatever the store holds: the returned ticket has the id
  \<open>TKT\<close> followed by the clock reading, the reporter, the category, status
  \<open>submitted\<close> and no upvotes; it is stored under its id and no other ticket key is
  touched; the id is appended to the reporter's list; every stored authority profile
  finds a new-ticket entry at the head of its feed (exactly one when the authority
  profiles carry distinct ids), and the feeds of all other users are unchanged.
\<close>

lemma submitTicket_effects:
  assumes c: "body_category body = Some cat" and ne: "cat \<noteq> []"
    and l: "body_location body = Some loc"
    and d: "distinct (map profile_id (authorities s))"
  shows "fst (submitTicket (Some uid) body now rnd s) =
           Json_ok (new_ticket uid cat body loc now, ''Ticket submitted successfully'')
     \<and> ticket_id (new_ticket uid cat body loc now) = ''TKT'' @ string_of_nat now
     \<and> userId (new_ticket uid cat body loc now) = uid
     \<and> category (new_ticket uid cat body loc now) = cat
     \<and> status (new_ticket uid cat body loc now) = ''submitted''
     \<and> upvotes (new_ticket uid cat body loc now) = 0
     \<and> kv_get (''ticket_'' @ ''TKT'' @ string_of_nat now)
          (tickets (snd (submitTicket (Some uid) body now rnd s))) =
          Some (new_ticket uid cat body loc now)
     \<and> (\<forall>k. k \<noteq> ''ticket_'' @ ''TKT'' @ string_of_nat now \<longrightarrow>
          kv_get k (tickets (snd (submitTicket (Some uid) body now rnd s))) = kv_get k (tickets s))
     \<and> kv_get (''user_tickets_'' @ uid)
          (user_tickets (snd (submitTicket (Some uid) body now rnd s))) =
          Some ((case kv_get (''user_tickets_'' @ uid) (user_tickets s) of
                   None \<Rightarrow> [] | Some ids \<Rightarrow> ids) @ [''TKT'' @ string_of_nat now])
     \<and> (\<forall>k p. prefix ''user_profile_'' k \<and> kv_get k (user_profiles s) = Some p \<and>
                role p = ''authority'' \<longrightarrow>
          (\<exists>i. feed (profile_id p) (snd (submitTicket (Some uid) body now rnd s)) =
            take 50 (new_ticket_notification cat loc (''TKT'' @ string_of_nat now) now (rnd i) #
                     feed (profile_id p) s)))
     \<and> (\<forall>u. u \<notin> profile_id ` set (authorities s) \<longrightarrow>
          feed u (snd (submitTicket (Some uid) body now rnd s)) = feed u s)"
proof -
  define s' where "s' = snd (submitTicket (Some uid) body now rnd s)"
  have s': "s' = snd (submit_ok uid cat body loc now rnd s)"
    unfolding s'_def submitTicket_run [OF c ne l] ..
  have n: "feed (profile_id (authorities s ! i)) s' =
            take 50 (new_ticket_notification cat loc (''TKT'' @ string_of_nat now) now (rnd i) #
                     feed (profile_id (authorities s ! i)) s)"
    if "i < length (authorities s)" for i
    unfolding s' using d that by (simp add: submit_ok_def Let_def feed_notify_authorities_nth)
  have a: "\<forall>k p. prefix ''user_profile_'' k \<and> kv_get k (user_profiles s) = Some p \<and>
                role p = ''authority'' \<longrightarrow>
          (\<exists>i. feed (profile_id p) s' =
            take 50 (new_ticket_notification cat loc (''TKT'' @ string_of_nat now) now (rnd i) #
                     feed (profile_id p) s))"
  proof (intro allI impI)
    fix k p
    assume "prefix ''user_profile_'' k \<and> kv_get k (user_profiles s) = Some p \<and>
            role p = ''authority''"
    then have "p \<in> set (authorities s)"
      unfolding set_authorities by blast
    then obtain i where "i < length (authorities s)" and "authorities s ! i = p"
      by (auto simp add: in_set_conv_nth)
    with n [of i] show "\<exists>i. feed (profile_id p) s' =
            take 50 (new_ticket_notification cat loc (''TKT'' @ string_of_nat now) now (rnd i) #
                     feed (profile_id p) s)"
      by auto
  qed
  have o: "\<forall>u. u \<notin> profile_id ` set (authorities s) \<longrightarrow> feed u s' = feed u s"
    unfolding s' by (simp add: submit_ok_def Let_def feed_notify_authorities_other)
  have t: "kv_get (''ticket_'' @ ''TKT'' @ string_of_nat now) (tickets s') =
          Some (new_ticket uid cat body loc now)"
    unfolding s' by (simp add: submit_ok_def Let_def kv_get_set_same)
  have fr: "\<forall>k. k \<noteq> ''ticket_'' @ ''TKT'' @ string_of_nat now \<longrightarrow>
          kv_get k (tickets s') = kv_get k (tickets s)"
    unfolding s' by (simp add: submit_ok_def Let_def kv_get_set)
  have u: "kv_get (''user_tickets_'' @ uid) (user_tickets s') =
          Some ((case kv_get (''user_tickets_'' @ uid) (user_tickets s) of
                   None \<Rightarrow> [] | Some ids \<Rightarrow> ids) @ [''TKT'' @ string_of_nat now])"
    unfolding s' by (simp add: submit_ok_def Let_def kv_get_set_same)
  have r: "fst (submitTicket (Some uid) body now rnd s) =
           Json_ok (new_ticket uid cat body loc now, ''Ticket submitted successfully'')"
    unfolding submitTicket_run [OF c ne l] by (simp add: submit_ok_def Let_def)
  have f: "ticket_id (new_ticket uid cat body loc now) = ''TKT'' @ string_of_nat now"
      "userId (new_ticket uid cat body loc now) = uid"
      "category (new_ticket uid cat body loc now) = cat"
      "status (new_ticket uid cat body loc now) = ''submitted''"
      "upvotes (new_ticket uid cat body loc now) = 0"
    by (simp_all add: new_ticket_def)
  from a o t fr u r f show ?thesis
    unfolding s'_def by blast
qed

text \<open>The scenario of the spec, run on the example store with its two authority accounts.\<close>

lemma submitTicket_example:
  "fst (submitTicket (Some ''citizen2'') example_body 8 example_rnd example_store) =
     Json_ok (\<lparr> ticket_id = ''TKT8'', userId = ''citizen2'', category = ''pothole'',
                description = [], ticket_location = Some example_location,
                imageUrl = None, status = ''submitted'', createdAt = 8, updatedAt = 8,
                assignedTo = None, ticket_resolution = None, upvotes = 0 \<rparr>,
              ''Ticket submitted successfully'') \<and>
   kv_get ''user_tickets_citizen2''
     (user_tickets (snd (submitTicket (Some ''citizen2'') example_body 8 example_rnd example_store))) =
     Some [''TKT6'', ''TKT8''] \<and>
   feed ''officer1'' (snd (submitTicket (Some ''citizen2'') example_body 8 example_rnd example_store)) =
     [\<lparr> notification_id = ''notif_8_r0'', notification_type = ''new_ticket'',
        title = ''New Issue Reported'',
        message = ''A new pothole issue has been reported in Ward 25'',
        notification_ticketId = Some ''TKT8'', read = False, notification_createdAt = 8 \<rparr>] \<and>
   feed ''officer2'' (snd (submitTicket (Some ''citizen2'') example_body 8 example_rnd example_store)) =
     [\<lparr> notification_id = ''notif_8_r1'', notification_type = ''new_ticket'',
        title = ''New Issue Reported'',
        message = ''A new pothole issue has been reported in Ward 25'',
        notification_ticketId = Some ''TKT8'', read = False, notification_createdAt = 8 \<rparr>] \<and>
   feed ''citizen2'' (snd (submitTicket (Some ''citizen2'') example_body 8 example_rnd example_store)) =
     []"
  by code_simp

text \<open>
  Claim C3 at two submissions in one millisecond. \<open>citizen1\<close> and then \<open>citizen2\<close>
  submit a pothole while the clock reads 8. Both submissions succeed and both tickets get
  the id \<open>TKT8\<close>: the id of the second is not fresh, the second ticket replaces the
  first under the key \<^verbatim>\<open>ticket_TKT8\<close>, and the ticket-id list of \<open>citizen1\<close> now
  points at the ticket of \<open>citizen2\<close>.
\<close>

theorem submitTicket_same_millisecond:
  "fst (submitTicket (Some ''citizen1'') example_body 8 example_rnd example_store) =
     Json_ok (\<lparr> ticket_id = ''TKT8'', userId = ''citizen1'', category = ''pothole'',
                description = [], ticket_location = Some example_location,
                imageUrl = None, status = ''submitted'', createdAt = 8, updatedAt = 8,
                assignedTo = None, ticket_resolution = None, upvotes = 0 \<rparr>,
              ''Ticket submitted successfully'') \<and>
   map_option userId (kv_get ''ticket_TKT8'' (tickets example_first_submission)) =
     Some ''citizen1'' \<and>
   fst (submitTicket (Some ''citizen2'') example_body 8 example_rnd example_first_submission) =
     Json_ok (\<lparr> ticket_id = ''TKT8'', userId = ''citizen2'', category = ''pothole'',
                description = [], ticket_location = Some example_location,
                imageUrl = None, status = ''submitted'', createdAt = 8, updatedAt = 8,
                assignedTo = None, ticket_resolution = None, upvotes = 0 \<rparr>,
              ''Ticket submitted successfully'') \<and>
   map_option userId
     (kv_get ''ticket_TKT8''
        (tickets (snd (submitTicket (Some ''citizen2'') example_body 8 example_rnd
                         example_first_submission)))) = Some ''citizen2'' \<and>
   kv_get ''user_tickets_citizen1''
     (user_tickets (snd (submitTicket (Some ''citizen2'') example_body 8 example_rnd
                           example_first_submission))) = Some [''TKT5'', ''TKT8''] \<and>
   kv_get ''user_tickets_citizen2''
     (user_tickets (snd (submitTicket (Some ''citizen2'') example_body 8 example_rnd
                           example_first_submission))) = Some [''TKT6'', ''TKT8'']"
  by code_simp

text \<open>
  Claim C4, as amended. For an authenticated reporter, \<open>Create\<close> fails with the
  validation error (HTTP 400) and leaves the store unchanged exactly when the category is
  missing or empty or the location is missing; every other submission is accepted,
  whatever the category string is and whether or not the location has coordinates.
\<close>

theorem submitTicket_validation:
  "(submitTicket (Some uid) body now rnd s =
      (Json_error ''Category and location are required'' 400, s)) =
     (\<not> truthy_string (body_category body) \<or> body_location body = None)
   \<and> (truthy_string (body_category body) \<and> body_location body \<noteq> None \<longrightarrow>
        http_status (fst (submitTicket (Some uid) body now rnd s)) = 200)"
  by (cases "body_category body"; cases "body_location body")
    (auto simp add: submitTicket_def submit_ok_def Let_def http_status_def)

theorem submitTicket_validation_witness:
  "\<not> truthy_string (body_category (example_body\<lparr>body_category := Some []\<rparr>)) \<and>
   submitTicket (Some ''citizen2'') (example_body\<lparr>body_category := Some []\<rparr>) 8 example_rnd
       example_store =
     (Json_error ''Category and location are required'' 400, example_store) \<and>
   body_location (example_body\<lparr>body_location := None\<rparr>) = None \<and>
   submitTicket (Some ''citizen2'') (example_body\<lparr>body_location := None\<rparr>) 8 example_rnd
       example_store =
     (Json_error ''Category and location are required'' 400, example_store) \<and>
   truthy_string (body_category example_body) \<and> body_location example_body \<noteq> None \<and>
   http_status (fst (submitTicket (Some ''citizen2'') example_body 8 example_rnd example_store)) = 200"
  using submitTicket_validation [of "''citizen2''" "example_body\<lparr>body_category := Some []\<rparr>" 8
      example_rnd example_store]
    submitTicket_validation [of "''citizen2''" "example_body\<lparr>body_location := None\<rparr>" 8
      example_rnd example_store]
    submitTicket_validation [of "''citizen2''" example_body 8 example_rnd example_store]
  by (simp add: example_body_def)

text \<open>
  Claim C4 as stated fails: a submission with the category \<open>banana\<close> and a location
  without latitude and longitude is answered with status 200 and its ticket is stored.
\<close>

theorem submitTicket_unknown_category_counterexample:
  "body_category example_bad_body = Some ''banana'' \<and>
   body_location example_bad_body =
     Some \<lparr> lat = None, lng = None, address = None, ward = None, digiPin = None \<rparr> \<and>
   http_status (fst (submitTicket (Some ''citizen2'') example_bad_body 8 example_rnd example_store))
     = 200 \<and>
   map_option category
     (kv_get ''ticket_TKT8''
        (tickets (snd (submitTicket (Some ''citizen2'') example_bad_body 8 example_rnd
                         example_store)))) = Some ''banana'' \<and>
   kv_get ''ticket_TKT8'' (tickets example_store) = None"
proof -
  have s: "string_of_nat 8 = ''8''"
    by (simp add: string_of_nat.simps digit_char_def)
  show ?thesis
    by (simp add: submitTicket_def submit_ok_def Let_def example_bad_body_def s new_ticket_def
        example_store_def kv_get_def kv_set_def http_status_def)
qed

section \<open>Nearby search\<close>

text \<open>
  What the scan returns: the stored tickets that pass the coordinate test and lie within
  the radius, each with its distance, in ascending order of distance.
\<close>

lemma nearby_scan_iff:
  "(t, d) \<in> set (nearby_scan qlat qlng radius ts) \<longleftrightarrow>
     t \<in> set ts \<and>
     (\<exists>la lo. coordinates t = Some (la, lo) \<and> d = calculateDistance qlat qlng la lo \<and> d \<le> radius)"
  by (induction ts) (auto simp add: Let_def split: option.splits)

lemma nearbyTickets_iff:
  "(t, d) \<in> set (nearbyTickets qlat qlng radius s) \<longleftrightarrow>
     t \<in> set (kv_getByPrefix ''ticket_'' (tickets s)) \<and>
     (\<exists>la lo. coordinates t = Some (la, lo) \<and> d = calculateDistance qlat qlng la lo \<and> d \<le> radius)"
  by (simp add: nearbyTickets_def nearby_scan_iff)

lemma nearbyTickets_sorted: "sorted (map snd (nearbyTickets qlat qlng radius s))"
  by (simp add: nearbyTickets_def)

text \<open>
  Claim C10. A ticket whose location is absent, or whose latitude or longitude is
  missing or equal to 0, is never part of the result of \<open>ListNearby\<close>, whatever the
  query point and the radius are.
\<close>

theorem nearbyTickets_skips_falsy_coordinates:
  assumes "ticket_location t = None \<or>
           (\<exists>loc. ticket_location t = Some loc \<and>
                  (lat loc = None \<or> lat loc = Some 0 \<or> lng loc = None \<or> lng loc = Some 0))"
  shows "t \<notin> fst ` set (nearbyTickets qlat qlng radius s)"
proof
  assume "t \<in> fst ` set (nearbyTickets qlat qlng radius s)"
  then obtain d where "(t, d) \<in> set (nearbyTickets qlat qlng radius s)"
    by auto
  then obtain la lo where "coordinates t = Some (la, lo)"
    by (auto simp add: nearbyTickets_iff)
  with assms show False
    by (auto simp add: coordinates_def split: option.splits if_splits)
qed

theorem nearbyTickets_skips_falsy_coordinates_witness:
  "(ticket_location equator_ticket = None \<or>
    (\<exists>loc. ticket_location equator_ticket = Some loc \<and>
           (lat loc = None \<or> lat loc = Some 0 \<or> lng loc = None \<or> lng loc = Some 0))) \<and>
   equator_ticket \<in> set (kv_getByPrefix ''ticket_'' (tickets equator_store)) \<and>
   equator_ticket \<notin> fst ` set (nearbyTickets 0 77 5 equator_store)"
proof -
  have h: "ticket_location equator_ticket = None \<or>
    (\<exists>loc. ticket_location equator_ticket = Some loc \<and>
           (lat loc = None \<or> lat loc = Some 0 \<or> lng loc = None \<or> lng loc = Some 0))"
    by (simp add: equator_ticket_def)
  have m: "equator_ticket \<in> set (kv_getByPrefix ''ticket_'' (tickets equator_store))"
    by (simp add: equator_store_def kv_getByPrefix_def)
  from nearbyTickets_skips_falsy_coordinates [OF h, of 0 77 5 equator_store] h m
  show ?thesis by blast
qed

text \<open>
  Claim C7 at a ticket on the equator: the only stored ticket lies at (0, 77), the query
  point is (0, 77) and the radius 5 km. The haversine distance is 0, within the radius,
  and the result is empty.
\<close>

theorem nearbyTickets_misses_equator:
  "kv_getByPrefix ''ticket_'' (tickets equator_store) = [equator_ticket] \<and>
   map_option lat (ticket_location equator_ticket) = Some (Some 0) \<and>
   map_option lng (ticket_location equator_ticket) = Some (Some 77) \<and>
   calculateDistance 0 77 0 77 = 0 \<and>
   calculateDistance 0 77 0 77 \<le> 5 \<and>
   nearbyTickets 0 77 5 equator_store = []"
  by (simp add: equator_store_def kv_getByPrefix_def equator_ticket_def nearbyTickets_def
      coordinates_def calculateDistance_def atan2_def)

section \<open>Heatmap averages\<close>

lemma math_round_div:
  assumes "0 < c"
  shows "math_round (real t / real c) = int ((2 * t + c) div (2 * c))"
proof -
  have "real t / real c + 1 / 2 = real (2 * t + c) / real (2 * c)"
    using assms by (simp add: field_simps)
  then show ?thesis
    unfolding math_round_def by (simp only: floor_divide_of_nat_eq)
qed

lemma heatmap_of_ward_fields [simp]:
  "issueCount (heatmap_of_ward wd) = issueCount wd"
  "totalUpvotes (heatmap_of_ward wd) = totalUpvotes wd"
  "averageUpvotes (heatmap_of_ward wd) =
     (if issueCount wd > 0 then math_round (real (totalUpvotes wd) / real (issueCount wd)) else 0)"
  by (simp_all add: heatmap_of_ward_def ward_data.defs heatmap_entry.defs)

text \<open>
  Claim C8, as amended. For every ward aggregate produced by \<open>Heatmap\<close>, the
  average-upvotes field is total upvotes divided by issue count, rounded to the nearest
  integer with a half rounding up (\<open>(2 * total + count) div (2 * count)\<close>), when the
  issue count is greater than 0, and 0 otherwise.
\<close>

theorem heatmap_average_rounds:
  "\<forall>e \<in> set (heatmap daysBack monthsBack timeFilterQ wardFilterQ now s).
     averageUpvotes e =
       (if issueCount e > 0
        then int ((2 * totalUpvotes e + issueCount e) div (2 * issueCount e))
        else 0)"
  by (auto simp add: heatmap_def Let_def math_round_div)

theorem heatmap_average_rounds_witness:
  "map issueCount
     (heatmap example_daysBack example_monthsBack (Some ''all'') None 100 example_store) = [2] \<and>
   map totalUpvotes
     (heatmap example_daysBack example_monthsBack (Some ''all'') None 100 example_store) = [3] \<and>
   map averageUpvotes
     (heatmap example_daysBack example_monthsBack (Some ''all'') None 100 example_store) =
     [int ((2 * 3 + 2) div (2 * 2))]"
proof -
  have h: "heatmap example_daysBack example_monthsBack (Some ''all'') None 100 example_store =
     [\<lparr> ward_label = ''Ward 25'', issueCount = 2, criticalCount = 0, totalUpvotes = 3,
        categories = [(''pothole'', 1), (''streetlight'', 1)],
        averageUpvotes = 2, density = ''low'' \<rparr>]"
    by code_simp
  from heatmap_average_rounds [of example_daysBack example_monthsBack "Some ''all''" None 100 example_store]
  show ?thesis
    by (simp add: h)
qed

text \<open>
  Claim C8 as stated fails: a ward with two tickets of 1 and 2 upvotes has the average 2,
  while the floor of 3 / 2 is 1.
\<close>

theorem heatmap_average_not_floor_counterexample:
  "heatmap example_daysBack example_monthsBack (Some ''all'') None 100 example_store =
     [\<lparr> ward_label = ''Ward 25'', issueCount = 2, criticalCount = 0, totalUpvotes = 3,
        categories = [(''pothole'', 1), (''streetlight'', 1)],
        averageUpvotes = 2, density = ''low'' \<rparr>] \<and>
   \<lfloor>(3::real) / 2\<rfloor> = 1"
proof -
  have h: "heatmap example_daysBack example_monthsBack (Some ''all'') None 100 example_store =
     [\<lparr> ward_label = ''Ward 25'', issueCount = 2, criticalCount = 0, totalUpvotes = 3,
        categories = [(''pothole'', 1), (''streetlight'', 1)],
        averageUpvotes = 2, density = ''low'' \<rparr>]"
    by code_simp
  have f: "\<lfloor>(3::real) / 2\<rfloor> = 1" by simp
  from h f show ?thesis by simp
qed

end
